theory Spec2Isabelle
  imports Main "HOL-Library.Char_ord" "HOL-Library.List_Lexorder"
begin

section \<open>JavaScript helpers used by the sources\<close>

text \<open>
  Strings are \<^typ>\<open>string\<close>; the numbers that occur (page indices, array lengths,
  clock readings) are integers. \<open>Array.prototype.slice\<close> is written out with the
  clamping that JavaScript performs, including the negative end index that counts from
  the end of the array.
\<close>

definition nl :: string where
  "nl = [CHR 0x0A]"

definition digit_char :: "nat \<Rightarrow> char" where
  "digit_char d = ''0123456789'' ! d"

text \<open>\<open>n.toString()\<close> and the template-literal rendering of a non-negative integer.\<close>

fun string_of_nat :: "nat \<Rightarrow> string" where
  "string_of_nat n =
     (if n < 10 then [digit_char n] else string_of_nat (n div 10) @ [digit_char (n mod 10)])"

declare string_of_nat.simps [simp del]

definition string_of_int :: "int \<Rightarrow> string" where
  "string_of_int i = (if i < 0 then CHR ''-'' # string_of_nat (nat (- i)) else string_of_nat (nat i))"

text \<open>\<open>xs.join(sep)\<close>\<close>

fun join :: "string \<Rightarrow> string list \<Rightarrow> string" where
  "join sep [] = []"
| "join sep [x] = x"
| "join sep (x # y # ys) = x @ sep @ join sep (y # ys)"

text \<open>\<open>xs.slice(0, e)\<close>: a negative \<open>e\<close> is taken relative to the length, then clamped.\<close>

definition slice_to :: "'a list \<Rightarrow> int \<Rightarrow> 'a list" where
  "slice_to xs e =
     (let n = int (length xs);
          k = (if e < 0 then max (n + e) 0 else min e n)
      in take (nat k) xs)"

text \<open>\<open>xs.slice(-k)\<close> for a positive constant \<open>k\<close>: the last \<open>k\<close> elements, or all.\<close>

definition slice_last :: "nat \<Rightarrow> 'a list \<Rightarrow> 'a list" where
  "slice_last k xs = drop (length xs - k) xs"

text \<open>\<open>xs.map((x, idx) => f x idx)\<close>, with the index counted from \<open>i\<close>.\<close>

fun map_idx :: "('a \<Rightarrow> nat \<Rightarrow> 'b) \<Rightarrow> nat \<Rightarrow> 'a list \<Rightarrow> 'b list" where
  "map_idx f i [] = []"
| "map_idx f i (x # xs) = f x i # map_idx f (Suc i) xs"

text \<open>
  White space is the ASCII white space (tab, line feed, vertical tab, form feed, carriage
  return, space); the further Unicode white space of \<open>\s\<close> and \<open>trim\<close> lies outside the
  byte strings used here.
\<close>

definition is_space :: "char \<Rightarrow> bool" where
  "is_space c = (c \<in> set [CHR 0x09, CHR 0x0A, CHR 0x0B, CHR 0x0C, CHR 0x0D, CHR '' ''])"

text \<open>\<open>s.trim()\<close>\<close>

definition trim :: "string \<Rightarrow> string" where
  "trim s = rev (dropWhile is_space (rev (dropWhile is_space s)))"

text \<open>\<open>s.replace(/\s+/g, ' ')\<close>: every maximal run of white space becomes one space.\<close>

function collapse_ws :: "string \<Rightarrow> string" where
  "collapse_ws [] = []"
| "collapse_ws (c # cs) =
     (if is_space c then CHR '' '' # collapse_ws (dropWhile is_space cs) else c # collapse_ws cs)"
  by pat_completeness auto
termination
  by (relation "measure length") (auto simp add: le_imp_less_Suc length_dropWhile_le)

text \<open>\<open>s.endsWith(suf)\<close>\<close>

definition ends_with :: "string \<Rightarrow> string \<Rightarrow> bool" where
  "ends_with s suf = (length suf \<le> length s \<and> drop (length s - length suf) s = suf)"

text \<open>\<open>s.replace(pat, '')\<close> with a string pattern: the first occurrence is removed.\<close>

fun remove_first :: "string \<Rightarrow> string \<Rightarrow> string" where
  "remove_first pat [] = []"
| "remove_first pat (c # cs) =
     (if take (length pat) (c # cs) = pat then drop (length pat) (c # cs)
      else c # remove_first pat cs)"

section \<open>Types (types.ts)\<close>

datatype role = User | Assistant | System

record message =
  msg_id :: string
  msg_role :: role
  msg_content :: string
  msg_timestamp :: int
  isStreaming :: "bool option"

record tocItem =
  toc_title :: string
  toc_page :: int
  toc_level :: nat

datatype fileType = Pdf | Epub

text \<open>\<open>renderData\<close>: the retained bytes of a PDF, or the markup pages of an EPUB.\<close>

datatype renderData = Buffer string | Markup "string list"

record book =
  book_title :: string
  book_fileType :: fileType
  book_content :: "string list"
  book_renderData :: renderData
  book_totalPages :: nat
  book_fileName :: string
  book_toc :: "tocItem list"

section \<open>The generation request (services/geminiService.ts)\<close>

definition page_block :: "string \<Rightarrow> nat \<Rightarrow> string" where
  "page_block text idx = ''[Page '' @ string_of_nat (idx + 1) @ '']: '' @ text"

definition pagesRead :: "string list \<Rightarrow> int \<Rightarrow> string list" where
  "pagesRead bookContext currentPage = slice_to bookContext (currentPage + 1)"

definition contextText :: "string list \<Rightarrow> int \<Rightarrow> string" where
  "contextText bookContext currentPage =
     join (nl @ nl) (map_idx page_block 0 (pagesRead bookContext currentPage))"

definition systemInstruction :: "string list \<Rightarrow> int \<Rightarrow> string" where
  \<open>systemInstruction bookContext currentPage =
     nl @ ''    You are a strict "No-Spoiler" Reading Assistant. '' @
     nl @ ''    The user is reading a book and has strictly read ONLY pages 1 to '' @
            string_of_int (currentPage + 1) @ ''.'' @
     nl @ ''    '' @
     nl @ ''    Here is the content they have read so far:'' @
     nl @ ''    """'' @
     nl @ ''    '' @ contextText bookContext currentPage @
     nl @ ''    """'' @
     nl @
     nl @ ''    YOUR RULES:'' @
     nl @ ''    1. Answer ONLY using the information provided in the context above.'' @
     nl @ ''    2. Do NOT use outside knowledge about the book's plot, ending, or future characters.'' @
     nl @ ''    3. If the user asks about an event, character, or detail NOT present in the pages read so far, respond: "I don't have information about that yet based on the pages you've read."'' @
     nl @ ''    4. If asked to summarize, summarize ONLY the pages provided.'' @
     nl @ ''    5. If asked for a prediction, politely decline and redirect to current events.'' @
     nl @ ''    6. Be helpful with definitions, clarifications, and summaries of past events.'' @
     nl @ ''    '' @
     nl @ ''    Maintain a helpful, literary tone.'' @
     nl @ ''  ''\<close>

definition role_label :: "message \<Rightarrow> string" where
  "role_label m = (if msg_role m = User then ''User'' else ''Assistant'')"

definition history_line :: "message \<Rightarrow> string" where
  "history_line m = role_label m @ '': '' @ msg_content m"

definition recentWindow :: "message list \<Rightarrow> message list" where
  "recentWindow currentHistory = slice_last 6 (filter (\<lambda>m. msg_role m \<noteq> System) currentHistory)"

definition recentMessages :: "message list \<Rightarrow> string" where
  "recentMessages currentHistory = join nl (map history_line (recentWindow currentHistory))"

definition finalPrompt :: "message list \<Rightarrow> string \<Rightarrow> string" where
  "finalPrompt currentHistory lastUserMessage =
     nl @ ''    '' @ recentMessages currentHistory @
     nl @ ''    User: '' @ lastUserMessage @
     nl @ ''    Assistant:'' @
     nl @ ''  ''"

record gen_request =
  req_model :: string
  req_prompt :: string
  req_systemInstruction :: string

datatype error = ApiKeyMissing | UndefinedContent

text \<open>
  The part of \<open>generateAssistantResponse\<close> before the provider is called: \<open>getClient\<close>
  throws without an API key, and reading \<open>.content\<close> of the last element of an empty
  history throws a TypeError; both reject the returned promise. Otherwise the outbound
  request is fixed.
\<close>

definition build_request ::
  "bool \<Rightarrow> message list \<Rightarrow> string list \<Rightarrow> int \<Rightarrow> error + gen_request" where
  "build_request apiKey currentHistory bookContext currentPage =
     (if \<not> apiKey then Inl ApiKeyMissing
      else if currentHistory = [] then Inl UndefinedContent
      else Inr \<lparr> req_model = ''gemini-3-flash-preview'',
                 req_prompt = finalPrompt currentHistory (msg_content (last currentHistory)),
                 req_systemInstruction = systemInstruction bookContext currentPage \<rparr>)"

text \<open>
  The stream loop of \<open>generateAssistantResponse\<close> treats \<open>chunk.text\<close> as a delta: a
  truthy text is appended to \<open>fullText\<close> and the whole of \<open>fullText\<close> is handed to
  \<open>onChunk\<close>. A chunk without text, or with the empty text, is passed over.
\<close>

definition chunk_truthy :: "string option \<Rightarrow> bool" where
  "chunk_truthy text = (case text of None \<Rightarrow> False | Some t \<Rightarrow> t \<noteq> [])"

definition chunk_text :: "string option \<Rightarrow> string" where
  "chunk_text text = (case text of None \<Rightarrow> [] | Some t \<Rightarrow> t)"

definition fallback_text :: string where
  "fallback_text =
     ''I'm having trouble connecting to my knowledge base right now. Please try again.''"

section \<open>The application state and its handlers (App.tsx, ChatInterface.tsx)\<close>

text \<open>
  A call of \<open>generateAssistantResponse\<close> whose promise is still pending: the request it
  sent, the id of the placeholder turn its callback updates, and its local \<open>fullText\<close>.
  The list \<open>st_inflight\<close> is bookkeeping of the model; everything else is React state.
\<close>

record invocation =
  inv_request :: gen_request
  inv_assistantMsgId :: string
  inv_fullText :: string

record app_state =
  st_book :: "book option"
  st_currentPage :: int
  st_messages :: "message list"
  st_isChatOpen :: bool
  st_isAiLoading :: bool
  st_inflight :: "invocation list"

definition init_state :: app_state where
  "init_state = \<lparr> st_book = None, st_currentPage = 0, st_messages = [], st_isChatOpen = False,
                   st_isAiLoading = False, st_inflight = [] \<rparr>"

text \<open>The readings of \<open>Date.now()\<close> taken by one call of \<open>handleSendMessage\<close>, in order.\<close>

record clock =
  now_user_id :: int
  now_user_ts :: int
  now_asst_id :: int
  now_asst_ts :: int
  now_err_id :: int
  now_err_ts :: int

definition welcome_message :: "book \<Rightarrow> int \<Rightarrow> message" where
  "welcome_message loadedBook now =
     \<lparr> msg_id = ''welcome'', msg_role = Assistant,
       msg_content = ''Hello! I'm ready to read **'' @ book_title loadedBook @ ''** with you. ''
         @ nl @ nl @ ''I'll track your progress page by page. Feel free to ask me questions, but remember: I only know what *you* have read so far!'',
       msg_timestamp = now, isStreaming = None \<rparr>"

text \<open>\<open>savedPage\<close> is the integer that \<open>parseInt\<close> reads from the stored entry, if any.\<close>

definition handleBookLoaded :: "book \<Rightarrow> int option \<Rightarrow> int \<Rightarrow> app_state \<Rightarrow> app_state" where
  "handleBookLoaded loadedBook savedPage now s =
     s \<lparr> st_book := Some loadedBook,
         st_currentPage := (case savedPage of Some p \<Rightarrow> p | None \<Rightarrow> 0),
         st_messages := [welcome_message loadedBook now],
         st_isChatOpen := False \<rparr>"

definition handleBackToHome :: "app_state \<Rightarrow> app_state" where
  "handleBackToHome s = s \<lparr> st_book := None, st_messages := [], st_isChatOpen := False \<rparr>"

definition user_message :: "clock \<Rightarrow> string \<Rightarrow> message" where
  "user_message clk content =
     \<lparr> msg_id = string_of_int (now_user_id clk), msg_role = User, msg_content = content,
       msg_timestamp = now_user_ts clk, isStreaming = None \<rparr>"

definition assistantMsgId :: "clock \<Rightarrow> string" where
  "assistantMsgId clk = string_of_int (now_asst_id clk + 1)"

definition placeholder_message :: "clock \<Rightarrow> message" where
  "placeholder_message clk =
     \<lparr> msg_id = assistantMsgId clk, msg_role = Assistant, msg_content = [],
       msg_timestamp = now_asst_ts clk, isStreaming = Some True \<rparr>"

definition error_message :: "clock \<Rightarrow> message" where
  "error_message clk =
     \<lparr> msg_id = string_of_int (now_err_id clk), msg_role = Assistant,
       msg_content = ''Sorry, I encountered an error answering that.'',
       msg_timestamp = now_err_ts clk, isStreaming = None \<rparr>"

text \<open>The callback given to the service: the received text becomes the turn's content.\<close>

definition onChunk :: "string \<Rightarrow> string \<Rightarrow> app_state \<Rightarrow> app_state" where
  "onChunk aid textChunk s =
     s \<lparr> st_messages :=
           map (\<lambda>m. if msg_id m = aid then m \<lparr> msg_content := textChunk \<rparr> else m) (st_messages s) \<rparr>"

text \<open>
  \<open>handleSendMessage\<close> up to its \<open>await\<close>. Without an API key the service rejects at once
  and the \<open>catch\<close> and \<open>finally\<close> blocks run before any other event is handled.
\<close>

definition handleSendMessage :: "bool \<Rightarrow> clock \<Rightarrow> string \<Rightarrow> app_state \<Rightarrow> app_state" where
  "handleSendMessage apiKey clk content s =
     (case st_book s of
        None \<Rightarrow> s
      | Some b \<Rightarrow>
          let userMsg = user_message clk content;
              s1 = s \<lparr> st_messages := st_messages s @ [userMsg], st_isAiLoading := True \<rparr>;
              s2 = s1 \<lparr> st_messages := st_messages s1 @ [placeholder_message clk] \<rparr>
          in (case build_request apiKey (st_messages s @ [userMsg]) (book_content b)
                       (st_currentPage s) of
                Inl e \<Rightarrow>
                  s2 \<lparr> st_messages := st_messages s2 @ [error_message clk],
                       st_isAiLoading := False \<rparr>
              | Inr req \<Rightarrow>
                  s2 \<lparr> st_inflight := st_inflight s2 @
                         [\<lparr> inv_request = req, inv_assistantMsgId = assistantMsgId clk,
                            inv_fullText = [] \<rparr>] \<rparr>))"

text \<open>One iteration of the stream loop for the pending call \<open>i\<close>.\<close>

definition stream_chunk :: "nat \<Rightarrow> string option \<Rightarrow> app_state \<Rightarrow> app_state" where
  "stream_chunk i text s =
     (if i < length (st_inflight s) \<and> chunk_truthy text then
        let call = st_inflight s ! i;
            fullText = inv_fullText call @ chunk_text text
        in onChunk (inv_assistantMsgId call) fullText
             (s \<lparr> st_inflight := (st_inflight s) [i := call \<lparr> inv_fullText := fullText \<rparr>] \<rparr>)
      else s)"

text \<open>
  What the service resolves with: \<open>fullText\<close> when the stream ends, the fixed apology
  when the provider call or the stream throws.
\<close>

definition service_result :: "bool \<Rightarrow> invocation \<Rightarrow> string" where
  "service_result failed call = (if failed then fallback_text else inv_fullText call)"

text \<open>
  \<open>handleSendMessage\<close> after its \<open>await\<close>: the resolved value is not bound to anything;
  the placeholder turn stops streaming and \<open>finally\<close> clears the loading flag.
\<close>

definition after_await :: "string \<Rightarrow> string \<Rightarrow> app_state \<Rightarrow> app_state" where
  "after_await resolved aid s =
     s \<lparr> st_messages :=
           map (\<lambda>m. if msg_id m = aid then m \<lparr> isStreaming := Some False \<rparr> else m) (st_messages s),
         st_isAiLoading := False \<rparr>"

definition remove_at :: "nat \<Rightarrow> 'a list \<Rightarrow> 'a list" where
  "remove_at i xs = take i xs @ drop (Suc i) xs"

definition stream_end :: "bool \<Rightarrow> nat \<Rightarrow> app_state \<Rightarrow> app_state" where
  "stream_end failed i s =
     (if i < length (st_inflight s) then
        let call = st_inflight s ! i
        in after_await (service_result failed call) (inv_assistantMsgId call)
             (s \<lparr> st_inflight := remove_at i (st_inflight s) \<rparr>)
      else s)"

text \<open>
  The events of a session. The chat panel exists only while a book is loaded. Its form
  submits a non-blank input unless \<open>isLoading\<close>; its suggestion buttons call
  \<open>onSendMessage\<close> directly but are rendered only for an empty message list.
\<close>

datatype event =
    BookLoaded book "int option" int
  | BackToHome
  | PageChange int
  | FormSubmit string clock
  | SuggestionClick string clock
  | Chunk nat "string option"
  | StreamDone nat
  | StreamError nat

definition handleSubmit :: "bool \<Rightarrow> clock \<Rightarrow> string \<Rightarrow> app_state \<Rightarrow> app_state" where
  "handleSubmit apiKey clk inputValue s =
     (if trim inputValue \<noteq> [] \<and> \<not> st_isAiLoading s
      then handleSendMessage apiKey clk inputValue s else s)"

fun step :: "bool \<Rightarrow> event \<Rightarrow> app_state \<Rightarrow> app_state" where
  "step apiKey (BookLoaded b savedPage now) s = handleBookLoaded b savedPage now s"
| "step apiKey BackToHome s = handleBackToHome s"
| "step apiKey (PageChange p) s = s \<lparr> st_currentPage := p \<rparr>"
| "step apiKey (FormSubmit v clk) s =
     (if st_book s = None then s else handleSubmit apiKey clk v s)"
| "step apiKey (SuggestionClick v clk) s =
     (if st_book s \<noteq> None \<and> st_messages s = [] then handleSendMessage apiKey clk v s else s)"
| "step apiKey (Chunk i text) s = stream_chunk i text s"
| "step apiKey (StreamDone i) s = stream_end False i s"
| "step apiKey (StreamError i) s = stream_end True i s"

definition run :: "bool \<Rightarrow> event list \<Rightarrow> app_state \<Rightarrow> app_state" where
  "run apiKey evs s = fold (step apiKey) evs s"

section \<open>The parser (services/documentUtils.ts)\<close>

text \<open>
  The PDF library and the zip library are outside the sources. What they hand to the
  parser is part of the input: for a PDF the text runs of each page, the outline tree and
  the two lookup functions; for an EPUB the archive members with the parsed document of
  each.

  \<open>item.dest\<close> is a name, an array or nothing. Of an array only its first element is
  used, and only when it is truthy: \<open>ExplicitDest None\<close> is an array without such an element.
\<close>

datatype 'r dest = NoDest | NamedDest string | ExplicitDest "'r option"

datatype 'r outline_item =
  OutlineItem (oi_title: string) (oi_dest: "'r dest") (oi_url: "string option")
    (oi_items: "'r outline_item list")

text \<open>
  \<open>pdf_getDestination\<close> resolves a name to an array (given by its first element) or to
  \<open>null\<close>; \<open>pdf_getPageIndex\<close> resolves a reference to a page index or rejects (\<open>None\<close>).
\<close>

record 'r pdf_document =
  pdf_pages :: "string list list"
  pdf_outline :: "'r outline_item list option"
  pdf_getDestination :: "string \<Rightarrow> 'r option option"
  pdf_getPageIndex :: "'r \<Rightarrow> int option"

text \<open>\<open>dest\<close> after the lookup of a named destination: \<open>Some a\<close> when it is an array.\<close>

definition resolve_dest :: "'r pdf_document \<Rightarrow> 'r dest \<Rightarrow> 'r option option" where
  "resolve_dest pdf dest =
     (case dest of
        NamedDest name \<Rightarrow> pdf_getDestination pdf name
      | ExplicitDest a \<Rightarrow> Some a
      | NoDest \<Rightarrow> None)"

definition url_truthy :: "string option \<Rightarrow> bool" where
  "url_truthy url = (case url of None \<Rightarrow> False | Some u \<Rightarrow> u \<noteq> [])"

definition toc_push :: "string \<Rightarrow> int \<Rightarrow> nat \<Rightarrow> tocItem list" where
  "toc_push title pageIndex level =
     (if pageIndex \<noteq> - 1
      then [\<lparr> toc_title = title, toc_page = pageIndex, toc_level = level \<rparr>] else [])"

text \<open>
  \<open>processOutline\<close> pushes to the shared \<open>toc\<close> array in the order of the walk; the
  function returns the entries pushed. \<open>processItem\<close> is one iteration of its loop:
  with a usable array the page index is looked up (\<open>-1\<close> when the lookup rejects);
  otherwise a URL ends the iteration (\<open>continue\<close>); then the entry is pushed unless the
  index is \<open>-1\<close>, and the children are walked.
\<close>

fun processOutline :: "'r pdf_document \<Rightarrow> 'r outline_item list \<Rightarrow> nat \<Rightarrow> tocItem list"
  and processItem :: "'r pdf_document \<Rightarrow> 'r outline_item \<Rightarrow> nat \<Rightarrow> tocItem list" where
  "processOutline pdf [] level = []"
| "processOutline pdf (item # rest) level =
     processItem pdf item level @ processOutline pdf rest level"
| "processItem pdf (OutlineItem title dest url items) level =
     (case resolve_dest pdf dest of
        Some (Some ref) \<Rightarrow>
          toc_push title (case pdf_getPageIndex pdf ref of Some p \<Rightarrow> p | None \<Rightarrow> - 1) level
          @ (if items \<noteq> [] then processOutline pdf items (level + 1) else [])
      | _ \<Rightarrow>
          if url_truthy url then []
          else toc_push title (- 1) level
               @ (if items \<noteq> [] then processOutline pdf items (level + 1) else []))"

definition normalize_text :: "string \<Rightarrow> string" where
  "normalize_text t = trim (collapse_ws t)"

datatype parse_error =
    UnsupportedFileType | PdfJsNotLoaded | JSZipNotLoaded | PdfLoadFailed | ZipLoadFailed
  | TypeError

text \<open>
  A parsed archive member: \<open>doc.body.textContent\<close>, the number of \<open>img\<close> elements,
  \<open>doc.body.innerHTML\<close> after the image sources have been rewritten, and the text of the
  \<open>title\<close> element if there is one. A member whose document has no body is \<open>None\<close>.
  The archive is the list of its member names with their documents; the names are the
  keys of an object and so occur once.
\<close>

record epub_doc =
  doc_bodyText :: string
  doc_images :: nat
  doc_bodyHtml :: string
  doc_title :: "string option"

text \<open>
  The uploaded file with what the libraries make of it: \<open>up_pdf\<close> is the loaded PDF
  document and \<open>up_zip\<close> the loaded archive (\<open>None\<close> when loading rejects).
\<close>

record 'r upload =
  up_name :: string
  up_type :: string
  up_bytes :: string
  up_pdf :: "'r pdf_document option"
  up_zip :: "(string \<times> epub_doc option) list option"

record libs =
  pdfjsLib :: bool
  jsZip :: bool

definition parsePdf :: "libs \<Rightarrow> 'r upload \<Rightarrow> parse_error + book" where
  "parsePdf env file =
     (if \<not> pdfjsLib env then Inl PdfJsNotLoaded
      else case up_pdf file of
        None \<Rightarrow> Inl PdfLoadFailed
      | Some pdf \<Rightarrow>
          let pages = map (\<lambda>items. normalize_text (join '' '' items)) (pdf_pages pdf);
              toc = (case pdf_outline pdf of None \<Rightarrow> [] | Some outline \<Rightarrow> processOutline pdf outline 0)
          in Inr \<lparr> book_title = remove_first ''.pdf'' (up_name file),
                    book_fileType = Pdf,
                    book_content = pages,
                    book_renderData = Buffer (up_bytes file),
                    book_totalPages = length pages,
                    book_fileName = up_name file,
                    book_toc = toc \<rparr>)"

definition is_markup_name :: "string \<Rightarrow> bool" where
  "is_markup_name fileName =
     (ends_with fileName ''.html'' \<or> ends_with fileName ''.xhtml'' \<or> ends_with fileName ''.htm'')"

definition basename :: "string \<Rightarrow> string" where
  "basename fileName = rev (takeWhile (\<lambda>c. c \<noteq> CHR ''/'') (rev fileName))"

text \<open>\<open>name.replace(/\.[^/.]+$/, "")\<close>: a last dot with a non-empty rest is cut off.\<close>

definition strip_extension :: "string \<Rightarrow> string" where
  "strip_extension n =
     (let ext = takeWhile (\<lambda>c. c \<noteq> CHR ''/'' \<and> c \<noteq> CHR ''.'') (rev n)
      in if ext \<noteq> [] \<and> length ext < length n \<and> rev n ! length ext = CHR ''.''
         then take (length n - length ext - 1) n else n)"

definition epub_title :: "epub_doc \<Rightarrow> string \<Rightarrow> nat \<Rightarrow> string" where
  "epub_title doc fileName pageIndex =
     (let title = (case doc_title doc of None \<Rightarrow> [] | Some t \<Rightarrow> trim t)
      in if title \<noteq> [] then title
         else let stem = strip_extension (basename fileName)
              in if stem \<noteq> [] then stem else ''Chapter '' @ string_of_nat (pageIndex + 1))"

record epub_acc =
  textPages :: "string list"
  htmlPages :: "string list"
  acc_toc :: "tocItem list"

text \<open>The body of the loop over the sorted markup members, and the loop.\<close>

definition epub_member :: "epub_doc \<Rightarrow> string \<Rightarrow> epub_acc \<Rightarrow> epub_acc" where
  "epub_member doc fileName acc =
     (let text = doc_bodyText doc
      in if trim text \<noteq> [] \<or> doc_images doc > 0 then
           let pageIndex = length (textPages acc)
           in \<lparr> textPages = textPages acc @ [normalize_text text],
                htmlPages = htmlPages acc @ [doc_bodyHtml doc],
                acc_toc = acc_toc acc @
                  [\<lparr> toc_title = epub_title doc fileName pageIndex, toc_page = int pageIndex,
                     toc_level = 0 \<rparr>] \<rparr>
         else acc)"

fun epub_loop ::
  "(string \<times> epub_doc option) list \<Rightarrow> string list \<Rightarrow> epub_acc \<Rightarrow> parse_error + epub_acc" where
  "epub_loop archive [] acc = Inr acc"
| "epub_loop archive (fileName # files) acc =
     (case map_of archive fileName of
        Some (Some doc) \<Rightarrow> epub_loop archive files (epub_member doc fileName acc)
      | _ \<Rightarrow> Inl TypeError)"

definition parseEpub :: "libs \<Rightarrow> 'r upload \<Rightarrow> parse_error + book" where
  "parseEpub env file =
     (if \<not> jsZip env then Inl JSZipNotLoaded
      else case up_zip file of
        None \<Rightarrow> Inl ZipLoadFailed
      | Some archive \<Rightarrow>
          (let files = sort (filter is_markup_name (map fst archive))
           in case epub_loop archive files \<lparr> textPages = [], htmlPages = [], acc_toc = [] \<rparr> of
               Inl e \<Rightarrow> Inl e
             | Inr acc \<Rightarrow>
                 Inr \<lparr> book_title = remove_first ''.epub'' (up_name file),
                       book_fileType = Epub,
                       book_content = (if length (textPages acc) > 0 then textPages acc
                                     else [''No text content found.'']),
                       book_renderData = Markup (if length (htmlPages acc) > 0 then htmlPages acc
                                               else [''<p>No content found.</p>'']),
                       book_totalPages = (if length (htmlPages acc) > 0 then length (htmlPages acc)
                                        else 1),
                       book_fileName = up_name file,
                       book_toc = acc_toc acc \<rparr>))"

definition parseFile :: "libs \<Rightarrow> 'r upload \<Rightarrow> parse_error + book" where
  "parseFile env file =
     (if up_type file = ''application/pdf'' then parsePdf env file
      else if up_type file = ''application/epub+zip'' \<or> ends_with (up_name file) ''.epub''
           then parseEpub env file
      else Inl UnsupportedFileType)"

section \<open>Session invariant\<close>

definition session_inv :: "app_state \<Rightarrow> bool" where
  "session_inv s =
     (length (st_inflight s) \<le> 1
      \<and> (st_inflight s \<noteq> [] \<longrightarrow> st_isAiLoading s)
      \<and> (st_book s \<noteq> None \<longrightarrow> st_messages s \<noteq> []))"

section \<open>Context window\<close>

lemma slice_to_take:
  "- 1 \<le> currentPage \<Longrightarrow> slice_to xs (currentPage + 1) = take (nat (currentPage + 1)) xs"
  by (simp add: slice_to_def Let_def min_def)

lemma map_idx_nth:
  "map_idx f i xs = map (\<lambda>k. f (xs ! k) (i + k)) [0..<length xs]"
proof (induction xs arbitrary: i)
  case Nil
  show ?case by simp
next
  case (Cons x xs)
  have "[0..<length (x # xs)] = 0 # map Suc [0..<length xs]"
    by (simp add: upt_conv_Cons map_Suc_upt del: upt_Suc)
  then show ?case
    using Cons.IH [of "Suc i"] by (simp add: comp_def del: upt_Suc)
qed

text \<open>
  The end index of the slice has no lower clamp. A page index is never negative (the
  reader moves only within \<open>0 \<dots> totalPages - 1\<close> and only such values are stored), but for
  an end index below zero JavaScript counts from the end of the array: at \<open>-2\<close> every page
  but the last is rendered.
\<close>

lemma context_negative_end_index:
  "contextText [''A'', ''B'', ''C''] (- 2) = ''[Page 1]: A'' @ nl @ nl @ ''[Page 2]: B''"
  by (simp add: contextText_def pagesRead_def slice_to_def page_block_def
      string_of_nat.simps digit_char_def)



text \<open>
  C2: for a valid index \<open>0 \<le> currentPage < length pages\<close> the context string is exactly
  the blocks \<open>[Page i+1]: pages[i]\<close> for \<open>i = 0, \<dots>, currentPage\<close> in ascending order,
  joined by a blank line (two newlines). It is a function of the two arguments alone.
\<close>

theorem context_derivation:
  assumes "0 \<le> currentPage" and "currentPage < int (length pages)"
  shows "contextText pages currentPage =
         join (nl @ nl)
           (map (\<lambda>i. ''[Page '' @ string_of_nat (i + 1) @ '']: '' @ pages ! i)
                [0..<nat currentPage + 1])"
proof -
  have len: "length (take (nat (currentPage + 1)) pages) = nat currentPage + 1"
    using assms by (simp add: min_def nat_add_distrib) linarith
  have "pagesRead pages currentPage = take (nat (currentPage + 1)) pages"
    using assms by (simp add: pagesRead_def slice_to_take)
  then have "map_idx page_block 0 (pagesRead pages currentPage) =
        map (\<lambda>k. page_block (take (nat (currentPage + 1)) pages ! k) k) [0..<nat currentPage + 1]"
    by (simp only: map_idx_nth len add_0)
  also have "\<dots> = map (\<lambda>i. ''[Page '' @ string_of_nat (i + 1) @ '']: '' @ pages ! i)
                [0..<nat currentPage + 1]"
    using assms by (intro map_cong refl) (auto simp add: page_block_def nat_add_distrib)
  finally show ?thesis by (simp add: contextText_def)
qed

theorem context_derivation_witness:
  "contextText [''A'', ''B'', ''C''] 1 = ''[Page 1]: A'' @ nl @ nl @ ''[Page 2]: B''"
proof -
  have "[0..<nat (1::int) + 1] = [0, 1]"
    by (simp add: upt_conv_Cons)
  then show ?thesis
    using context_derivation [of 1 "[''A'', ''B'', ''C'']"]
    by (simp add: string_of_nat.simps digit_char_def)
qed

text \<open>
  C10: an index at or beyond the number of pages is no error. The end of the slice
  saturates at the length, so the context is the one of the whole document (the same as at
  the last valid index), and the request is built with it whenever the client can be
  created and the history is not empty, as for any other index.
\<close>

theorem context_out_of_range_total:
  assumes "int (length pages) \<le> currentPage"
  shows "contextText pages currentPage = join (nl @ nl) (map_idx page_block 0 pages)
         \<and> contextText pages currentPage = contextText pages (int (length pages) - 1)
         \<and> (history \<noteq> [] \<longrightarrow>
              build_request True history pages currentPage
              = Inr \<lparr> req_model = ''gemini-3-flash-preview'',
                      req_prompt = finalPrompt history (msg_content (last history)),
                      req_systemInstruction = systemInstruction pages currentPage \<rparr>)"
proof -
  have "pagesRead pages currentPage = pages"
    using assms by (simp add: pagesRead_def slice_to_def Let_def min_def)
  moreover have "pagesRead pages (int (length pages) - 1) = pages"
    by (simp add: pagesRead_def slice_to_def Let_def)
  ultimately show ?thesis
    by (simp add: contextText_def build_request_def)
qed

theorem context_out_of_range_total_witness:
  "contextText [''A'', ''B''] 7 = ''[Page 1]: A'' @ nl @ nl @ ''[Page 2]: B''
   \<and> contextText [''A'', ''B''] 7 = contextText [''A'', ''B''] 1
   \<and> build_request True
        [\<lparr> msg_id = ''1'', msg_role = User, msg_content = ''Who?'', msg_timestamp = 1,
           isStreaming = None \<rparr>] [''A'', ''B''] 7
     = Inr \<lparr> req_model = ''gemini-3-flash-preview'',
             req_prompt =
               finalPrompt
                 [\<lparr> msg_id = ''1'', msg_role = User, msg_content = ''Who?'', msg_timestamp = 1,
                    isStreaming = None \<rparr>] ''Who?'',
             req_systemInstruction = systemInstruction [''A'', ''B''] 7 \<rparr>"
  using context_out_of_range_total [of "[''A'', ''B'']" 7
      "[\<lparr> msg_id = ''1'', msg_role = User, msg_content = ''Who?'', msg_timestamp = 1,
          isStreaming = None \<rparr>]"]
  by (auto simp add: page_block_def string_of_nat.simps digit_char_def)

section \<open>History window\<close>

lemma slice_last_snoc: "slice_last (Suc k) (xs @ [x]) = slice_last k xs @ [x]"
  by (simp add: slice_last_def)

lemma recentWindow_snoc:
  "recentWindow (prior @ [user_message clk content]) =
     slice_last 5 (filter (\<lambda>m. msg_role m \<noteq> System) prior) @ [user_message clk content]"
proof -
  have "msg_role (user_message clk content) \<noteq> System"
    by (simp add: user_message_def)
  then show ?thesis
    using slice_last_snoc [of 5 "filter (\<lambda>m. msg_role m \<noteq> System) prior" "user_message clk content"]
    by (simp add: recentWindow_def eval_nat_numeral)
qed

lemma prompt_repeats_new_turn:
  "build_request True (prior @ [user_message clk content]) pages currentPage =
     Inr \<lparr> req_model = ''gemini-3-flash-preview'',
           req_prompt =
             nl @ ''    '' @
             join nl (map history_line (slice_last 5 (filter (\<lambda>m. msg_role m \<noteq> System) prior))
                      @ [''User: '' @ content]) @
             nl @ ''    User: '' @ content @
             nl @ ''    Assistant:'' @
             nl @ ''  '',
           req_systemInstruction = systemInstruction pages currentPage \<rparr>"
proof -
  have hl: "history_line (user_message clk content) = ''User: '' @ content"
    by (simp add: history_line_def role_label_def user_message_def)
  have mc: "msg_content (user_message clk content) = content"
    by (simp add: user_message_def)
  show ?thesis
    by (simp add: build_request_def finalPrompt_def recentMessages_def recentWindow_snoc hl mc)
qed

text \<open>
  C3, at ten prior turns and the new user text \<open>Q\<close>: the history handed to the service
  already ends with the new user turn, so the window of six holds the five most recent
  prior turns and the new turn, and the prompt then repeats the new turn's text on the
  next line. The sixth most recent prior turn (\<open>t5\<close>) is not sent.
\<close>

theorem history_window_ten_prior_turns:
  "map msg_content (recentWindow ((map (\<lambda>(r, c). \<lparr> msg_id = c, msg_role = r, msg_content = c, msg_timestamp = 0,
                           isStreaming = None \<rparr>)
          [(User, ''t1''), (Assistant, ''t2''), (User, ''t3''), (Assistant, ''t4''),
           (User, ''t5''), (Assistant, ''t6''), (User, ''t7''), (Assistant, ''t8''),
           (User, ''t9''), (Assistant, ''t10'')]) @ [user_message (\<lparr> now_user_id = 100, now_user_ts = 100, now_asst_id = 100, now_asst_ts = 100,
         now_err_id = 101, now_err_ts = 101 \<rparr>) ''Q'']))
     = [''t6'', ''t7'', ''t8'', ''t9'', ''t10'', ''Q'']
   \<and> build_request True ((map (\<lambda>(r, c). \<lparr> msg_id = c, msg_role = r, msg_content = c, msg_timestamp = 0,
                           isStreaming = None \<rparr>)
          [(User, ''t1''), (Assistant, ''t2''), (User, ''t3''), (Assistant, ''t4''),
           (User, ''t5''), (Assistant, ''t6''), (User, ''t7''), (Assistant, ''t8''),
           (User, ''t9''), (Assistant, ''t10'')]) @ [user_message (\<lparr> now_user_id = 100, now_user_ts = 100, now_asst_id = 100, now_asst_ts = 100,
         now_err_id = 101, now_err_ts = 101 \<rparr>) ''Q'']) [''A''] 0
     = Inr \<lparr> req_model = ''gemini-3-flash-preview'',
             req_prompt =
               nl @ ''    Assistant: t6'' @ nl @ ''User: t7'' @ nl @ ''Assistant: t8'' @
               nl @ ''User: t9'' @ nl @ ''Assistant: t10'' @ nl @ ''User: Q'' @
               nl @ ''    User: Q'' @
               nl @ ''    Assistant:'' @
               nl @ ''  '',
             req_systemInstruction = systemInstruction [''A''] 0 \<rparr>"
proof -
  have w: "slice_last 5 (filter (\<lambda>m. msg_role m \<noteq> System) (map (\<lambda>(r, c). \<lparr> msg_id = c, msg_role = r, msg_content = c, msg_timestamp = 0,
                           isStreaming = None \<rparr>)
          [(User, ''t1''), (Assistant, ''t2''), (User, ''t3''), (Assistant, ''t4''),
           (User, ''t5''), (Assistant, ''t6''), (User, ''t7''), (Assistant, ''t8''),
           (User, ''t9''), (Assistant, ''t10'')]))
      = map (\<lambda>(r, c). \<lparr> msg_id = c, msg_role = r, msg_content = c, msg_timestamp = 0,
                         isStreaming = None \<rparr>)
          [(Assistant, ''t6''), (User, ''t7''), (Assistant, ''t8''), (User, ''t9''),
           (Assistant, ''t10'')]"
    by (simp add: slice_last_def)
  have mc: "msg_content (user_message (\<lparr> now_user_id = 100, now_user_ts = 100, now_asst_id = 100, now_asst_ts = 100,
         now_err_id = 101, now_err_ts = 101 \<rparr>) ''Q'') = ''Q''"
    by (simp add: user_message_def)
  show ?thesis
    unfolding prompt_repeats_new_turn recentWindow_snoc w
    by (simp add: history_line_def role_label_def mc)
qed

section \<open>Streaming and failure\<close>

lemma submit_state:
  assumes "st_book s = Some b"
  shows "handleSendMessage True clk v s =
     s \<lparr> st_messages := st_messages s @ [user_message clk v, placeholder_message clk],
         st_isAiLoading := True,
         st_inflight := st_inflight s @
           [\<lparr> inv_request = \<lparr> req_model = ''gemini-3-flash-preview'',
                 req_prompt = finalPrompt (st_messages s @ [user_message clk v]) v,
                 req_systemInstruction = systemInstruction (book_content b) (st_currentPage s) \<rparr>,
              inv_assistantMsgId = assistantMsgId clk, inv_fullText = [] \<rparr>] \<rparr>"
  using assms by (simp add: handleSendMessage_def build_request_def Let_def user_message_def)

lemma stream_chunk_last:
  assumes "st_inflight s = [call]" and "st_messages s \<noteq> []"
    and "msg_id (last (st_messages s)) = inv_assistantMsgId call"
    and "msg_content (last (st_messages s)) = inv_fullText call"
  shows "st_inflight (stream_chunk 0 c s) = [call \<lparr> inv_fullText := inv_fullText call @ chunk_text c \<rparr>]"
    and "st_messages (stream_chunk 0 c s) \<noteq> []"
    and "msg_id (last (st_messages (stream_chunk 0 c s))) = inv_assistantMsgId call"
    and "msg_content (last (st_messages (stream_chunk 0 c s))) = inv_fullText call @ chunk_text c"
    and "isStreaming (last (st_messages (stream_chunk 0 c s))) = isStreaming (last (st_messages s))"
    and "st_isAiLoading (stream_chunk 0 c s) = st_isAiLoading s"
  using assms
  by (auto simp add: stream_chunk_def onChunk_def Let_def last_map chunk_truthy_def chunk_text_def
      split: option.splits)



lemma run_Cons: "run k (e # evs) s = run k evs (step k e s)"
  by (simp add: run_def)

lemma run_append: "run k (es @ fs) s = run k fs (run k es s)"
  by (simp add: run_def)

lemma run_Nil: "run k [] s = s"
  by (simp add: run_def)

lemma run_chunks_last:
  assumes "st_inflight s = [call]" and "st_messages s \<noteq> []"
    and "msg_id (last (st_messages s)) = inv_assistantMsgId call"
    and "msg_content (last (st_messages s)) = inv_fullText call"
  shows "st_inflight (run k (map (Chunk 0) cs) s)
           = [call \<lparr> inv_fullText := inv_fullText call @ concat (map chunk_text cs) \<rparr>]
       \<and> st_messages (run k (map (Chunk 0) cs) s) \<noteq> []
       \<and> msg_id (last (st_messages (run k (map (Chunk 0) cs) s))) = inv_assistantMsgId call
       \<and> msg_content (last (st_messages (run k (map (Chunk 0) cs) s)))
           = inv_fullText call @ concat (map chunk_text cs)
       \<and> isStreaming (last (st_messages (run k (map (Chunk 0) cs) s)))
           = isStreaming (last (st_messages s))
       \<and> st_isAiLoading (run k (map (Chunk 0) cs) s) = st_isAiLoading s"
  using assms
proof (induction cs arbitrary: s call)
  case Nil
  then show ?case by (simp add: run_Nil)
next
  case (Cons c cs)
  let ?s = "stream_chunk 0 c s"
  let ?call = "call \<lparr> inv_fullText := inv_fullText call @ chunk_text c \<rparr>"
  note sc = stream_chunk_last [OF Cons.prems, of c]
  have "st_inflight ?s = [?call]" "st_messages ?s \<noteq> []"
    "msg_id (last (st_messages ?s)) = inv_assistantMsgId ?call"
    "msg_content (last (st_messages ?s)) = inv_fullText ?call"
    using sc by simp_all
  from Cons.IH [OF this] show ?case
    using sc by (simp add: run_Cons)
qed

lemma stream_end_last:
  assumes "st_inflight s = [call]" and "st_messages s \<noteq> []"
    and "msg_id (last (st_messages s)) = inv_assistantMsgId call"
  shows "st_inflight (stream_end failed 0 s) = []"
    and "msg_content (last (st_messages (stream_end failed 0 s))) = msg_content (last (st_messages s))"
    and "isStreaming (last (st_messages (stream_end failed 0 s))) = Some False"
    and "st_isAiLoading (stream_end failed 0 s) = False"
  using assms
  by (auto simp add: stream_end_def after_await_def Let_def last_map remove_at_def)

lemma fold_onChunk_last:
  assumes "st_messages s \<noteq> []" and "msg_id (last (st_messages s)) = aid" and "ds \<noteq> []"
  shows "msg_content (last (st_messages (fold (onChunk aid) ds s))) = last ds"
  using assms
proof (induction ds arbitrary: s)
  case Nil
  then show ?case by simp
next
  case (Cons d ds)
  have a: "st_messages (onChunk aid d s) \<noteq> []"
    "msg_id (last (st_messages (onChunk aid d s))) = aid"
    "msg_content (last (st_messages (onChunk aid d s))) = d"
    using Cons.prems by (simp_all add: onChunk_def last_map)
  show ?case
  proof (cases "ds = []")
    case True
    then show ?thesis using a by simp
  next
    case False
    then show ?thesis using Cons.IH [OF a(1) a(2)] by simp
  qed
qed

lemma form_submit_state:
  assumes "st_book s = Some b" and "\<not> st_isAiLoading s" and "trim v \<noteq> []"
  shows "step True (FormSubmit v clk) s = handleSendMessage True clk v s"
  using assms by (simp add: handleSubmit_def)

lemmas session_eval =
  run_def handleBookLoaded_def init_state_def handleSubmit_def handleSendMessage_def
  build_request_def trim_def is_space_def stream_end_def stream_chunk_def after_await_def
  onChunk_def remove_at_def Let_def user_message_def placeholder_message_def assistantMsgId_def
  string_of_int_def string_of_nat.simps digit_char_def chunk_truthy_def chunk_text_def
  service_result_def error_message_def

text \<open>
  C4, as stated, at the stream loop: the service appends every streamed text to
  \<open>fullText\<close>, so the increments \<open>H\<close>, \<open>He\<close>, \<open>Hello\<close>, streamed in this order, leave the
  assistant turn with the text \<open>HHeHello\<close>.
\<close>

theorem streamed_prefixes_counterexample:
  "msg_content (last (st_messages
     (run True [BookLoaded (\<lparr> book_title = ''T'', book_fileType = Epub, book_content = [''A'', ''B''],
         book_renderData = Markup [''<p>A</p>'', ''<p>B</p>''], book_totalPages = 2,
         book_fileName = ''t.epub'', book_toc = [] \<rparr>) None 0, FormSubmit ''Hi'' (\<lparr> now_user_id = 100, now_user_ts = 100, now_asst_id = 100, now_asst_ts = 100,
         now_err_id = 101, now_err_ts = 101 \<rparr>), Chunk 0 (Some ''H''),
                Chunk 0 (Some ''He''), Chunk 0 (Some ''Hello''), StreamDone 0] init_state)))
   = ''HHeHello''"
  by (simp add: session_eval welcome_message_def)

text \<open>
  C4 (amended): the streamed increments are deltas. The service appends each to its
  \<open>fullText\<close> and hands the whole of \<open>fullText\<close> to \<open>onChunk\<close>; the callback replaces the
  content of the assistant turn (the last turn after a submit) with the value it is given.
  So after the streamed chunks \<open>cs\<close> the turn's text is their concatenation, the cumulative
  text, and it is still that after the stream has ended, when the turn stops streaming;
  and whatever values \<open>ds\<close> the callback is given, the text is the last of them, not their
  concatenation.
\<close>

theorem streaming_replaces_text:
  assumes "st_book s = Some b" and "st_inflight s = []" and "\<not> st_isAiLoading s"
    and "trim v \<noteq> []"
  shows "(ds \<noteq> [] \<longrightarrow>
            msg_content (last (st_messages
              (fold (onChunk (assistantMsgId clk)) ds (step True (FormSubmit v clk) s)))) = last ds)
       \<and> msg_content (last (st_messages (run True (FormSubmit v clk # map (Chunk 0) cs) s)))
           = concat (map chunk_text cs)
       \<and> msg_content (last (st_messages
            (run True (FormSubmit v clk # map (Chunk 0) cs @ [StreamDone 0]) s)))
           = concat (map chunk_text cs)
       \<and> isStreaming (last (st_messages
            (run True (FormSubmit v clk # map (Chunk 0) cs @ [StreamDone 0]) s))) = Some False"
proof -
  let ?s1 = "step True (FormSubmit v clk) s"
  let ?call = "\<lparr> inv_request = \<lparr> req_model = ''gemini-3-flash-preview'',
                 req_prompt = finalPrompt (st_messages s @ [user_message clk v]) v,
                 req_systemInstruction = systemInstruction (book_content b) (st_currentPage s) \<rparr>,
              inv_assistantMsgId = assistantMsgId clk, inv_fullText = [] \<rparr>"
  have s1: "?s1 = handleSendMessage True clk v s"
    by (rule form_submit_state [OF assms(1) assms(3) assms(4)])
  have p: "st_inflight ?s1 = [?call]" "st_messages ?s1 \<noteq> []"
    "msg_id (last (st_messages ?s1)) = inv_assistantMsgId ?call"
    "msg_content (last (st_messages ?s1)) = inv_fullText ?call"
    unfolding s1 using assms
    by (simp_all add: submit_state [OF assms(1)] placeholder_message_def)
  note rc = run_chunks_last [OF p, of True cs]
  let ?s2 = "run True (map (Chunk 0) cs) ?s1"
  have q: "st_inflight ?s2 = [?call \<lparr> inv_fullText := inv_fullText ?call @ concat (map chunk_text cs) \<rparr>]"
    "st_messages ?s2 \<noteq> []"
    "msg_id (last (st_messages ?s2)) =
       inv_assistantMsgId (?call \<lparr> inv_fullText := inv_fullText ?call @ concat (map chunk_text cs) \<rparr>)"
    using rc by simp_all
  note se = stream_end_last [OF q, of False]
  have a: "ds \<noteq> [] \<longrightarrow>
        msg_content (last (st_messages (fold (onChunk (assistantMsgId clk)) ds ?s1))) = last ds"
    using fold_onChunk_last [OF p(2), of "assistantMsgId clk" ds] p(3) by simp
  have b: "msg_content (last (st_messages (run True (FormSubmit v clk # map (Chunk 0) cs) s)))
           = concat (map chunk_text cs)"
    using rc by (simp add: run_Cons)
  have c: "msg_content (last (st_messages
            (run True (FormSubmit v clk # map (Chunk 0) cs @ [StreamDone 0]) s)))
           = concat (map chunk_text cs)"
    using se(2) rc by (simp add: run_Cons run_append run_Nil)
  have d: "isStreaming (last (st_messages
            (run True (FormSubmit v clk # map (Chunk 0) cs @ [StreamDone 0]) s))) = Some False"
    using se(3) by (simp add: run_Cons run_append run_Nil)
  show ?thesis using a b c d by blast
qed


theorem streaming_replaces_text_witness:
  "msg_content (last (st_messages
      (fold (onChunk (assistantMsgId (\<lparr> now_user_id = 100, now_user_ts = 100, now_asst_id = 100, now_asst_ts = 100,
         now_err_id = 101, now_err_ts = 101 \<rparr>))) [''H'', ''He'', ''Hello'']
         (step True (FormSubmit ''Hi'' (\<lparr> now_user_id = 100, now_user_ts = 100, now_asst_id = 100, now_asst_ts = 100,
         now_err_id = 101, now_err_ts = 101 \<rparr>)) (handleBookLoaded (\<lparr> book_title = ''T'', book_fileType = Epub, book_content = [''A'', ''B''],
         book_renderData = Markup [''<p>A</p>'', ''<p>B</p>''], book_totalPages = 2,
         book_fileName = ''t.epub'', book_toc = [] \<rparr>) None 0 init_state))))) = ''Hello''
   \<and> msg_content (last (st_messages
        (run True (FormSubmit ''Hi'' (\<lparr> now_user_id = 100, now_user_ts = 100, now_asst_id = 100, now_asst_ts = 100,
         now_err_id = 101, now_err_ts = 101 \<rparr>) # map (Chunk 0) [Some ''H'', Some ''e'', None, Some ''llo''])
           (handleBookLoaded (\<lparr> book_title = ''T'', book_fileType = Epub, book_content = [''A'', ''B''],
         book_renderData = Markup [''<p>A</p>'', ''<p>B</p>''], book_totalPages = 2,
         book_fileName = ''t.epub'', book_toc = [] \<rparr>) None 0 init_state)))) = ''Hello''
   \<and> msg_content (last (st_messages
        (run True (FormSubmit ''Hi'' (\<lparr> now_user_id = 100, now_user_ts = 100, now_asst_id = 100, now_asst_ts = 100,
         now_err_id = 101, now_err_ts = 101 \<rparr>) # map (Chunk 0) [Some ''H'', Some ''e'', None, Some ''llo'']
                   @ [StreamDone 0])
           (handleBookLoaded (\<lparr> book_title = ''T'', book_fileType = Epub, book_content = [''A'', ''B''],
         book_renderData = Markup [''<p>A</p>'', ''<p>B</p>''], book_totalPages = 2,
         book_fileName = ''t.epub'', book_toc = [] \<rparr>) None 0 init_state)))) = ''Hello''
   \<and> isStreaming (last (st_messages
        (run True (FormSubmit ''Hi'' (\<lparr> now_user_id = 100, now_user_ts = 100, now_asst_id = 100, now_asst_ts = 100,
         now_err_id = 101, now_err_ts = 101 \<rparr>) # map (Chunk 0) [Some ''H'', Some ''e'', None, Some ''llo'']
                   @ [StreamDone 0])
           (handleBookLoaded (\<lparr> book_title = ''T'', book_fileType = Epub, book_content = [''A'', ''B''],
         book_renderData = Markup [''<p>A</p>'', ''<p>B</p>''], book_totalPages = 2,
         book_fileName = ''t.epub'', book_toc = [] \<rparr>) None 0 init_state)))) = Some False"
  using streaming_replaces_text [of "handleBookLoaded (\<lparr> book_title = ''T'', book_fileType = Epub, book_content = [''A'', ''B''],
         book_renderData = Markup [''<p>A</p>'', ''<p>B</p>''], book_totalPages = 2,
         book_fileName = ''t.epub'', book_toc = [] \<rparr>) None 0 init_state" "(\<lparr> book_title = ''T'', book_fileType = Epub, book_content = [''A'', ''B''],
         book_renderData = Markup [''<p>A</p>'', ''<p>B</p>''], book_totalPages = 2,
         book_fileName = ''t.epub'', book_toc = [] \<rparr>)" "''Hi''"
      "[''H'', ''He'', ''Hello'']" "(\<lparr> now_user_id = 100, now_user_ts = 100, now_asst_id = 100, now_asst_ts = 100,
         now_err_id = 101, now_err_ts = 101 \<rparr>)" "[Some ''H'', Some ''e'', None, Some ''llo'']"]
  by (simp add: handleBookLoaded_def init_state_def trim_def is_space_def chunk_text_def)

text \<open>
  C5, evaluated. When the provider fails, the service resolves with the fixed apology, but
  \<open>handleSendMessage\<close> does not use the resolved value: the assistant turn keeps the text
  streamed so far (empty when nothing arrived), only its streaming flag is cleared. When
  the client cannot be created the promise rejects: a separate apology turn with another
  text is appended and the placeholder turn stays empty with \<open>isStreaming\<close> still set.
\<close>

theorem failure_text_not_shown:
  "st_messages (run True [BookLoaded (\<lparr> book_title = ''T'', book_fileType = Epub, book_content = [''A'', ''B''],
         book_renderData = Markup [''<p>A</p>'', ''<p>B</p>''], book_totalPages = 2,
         book_fileName = ''t.epub'', book_toc = [] \<rparr>) None 0, FormSubmit ''Who?'' (\<lparr> now_user_id = 100, now_user_ts = 100, now_asst_id = 100, now_asst_ts = 100,
         now_err_id = 101, now_err_ts = 101 \<rparr>), StreamError 0] init_state)
     = [welcome_message (\<lparr> book_title = ''T'', book_fileType = Epub, book_content = [''A'', ''B''],
         book_renderData = Markup [''<p>A</p>'', ''<p>B</p>''], book_totalPages = 2,
         book_fileName = ''t.epub'', book_toc = [] \<rparr>) 0, user_message (\<lparr> now_user_id = 100, now_user_ts = 100, now_asst_id = 100, now_asst_ts = 100,
         now_err_id = 101, now_err_ts = 101 \<rparr>) ''Who?'',
        (placeholder_message (\<lparr> now_user_id = 100, now_user_ts = 100, now_asst_id = 100, now_asst_ts = 100,
         now_err_id = 101, now_err_ts = 101 \<rparr>)) \<lparr> isStreaming := Some False \<rparr>]
   \<and> msg_content (last (st_messages
        (run True [BookLoaded (\<lparr> book_title = ''T'', book_fileType = Epub, book_content = [''A'', ''B''],
         book_renderData = Markup [''<p>A</p>'', ''<p>B</p>''], book_totalPages = 2,
         book_fileName = ''t.epub'', book_toc = [] \<rparr>) None 0, FormSubmit ''Who?'' (\<lparr> now_user_id = 100, now_user_ts = 100, now_asst_id = 100, now_asst_ts = 100,
         now_err_id = 101, now_err_ts = 101 \<rparr>), StreamError 0] init_state))) = []
   \<and> msg_content (last (st_messages
        (run True [BookLoaded (\<lparr> book_title = ''T'', book_fileType = Epub, book_content = [''A'', ''B''],
         book_renderData = Markup [''<p>A</p>'', ''<p>B</p>''], book_totalPages = 2,
         book_fileName = ''t.epub'', book_toc = [] \<rparr>) None 0, FormSubmit ''Who?'' (\<lparr> now_user_id = 100, now_user_ts = 100, now_asst_id = 100, now_asst_ts = 100,
         now_err_id = 101, now_err_ts = 101 \<rparr>), StreamError 0] init_state)))
       \<noteq> fallback_text
   \<and> msg_content (last (st_messages
        (run True [BookLoaded (\<lparr> book_title = ''T'', book_fileType = Epub, book_content = [''A'', ''B''],
         book_renderData = Markup [''<p>A</p>'', ''<p>B</p>''], book_totalPages = 2,
         book_fileName = ''t.epub'', book_toc = [] \<rparr>) None 0, FormSubmit ''Who?'' (\<lparr> now_user_id = 100, now_user_ts = 100, now_asst_id = 100, now_asst_ts = 100,
         now_err_id = 101, now_err_ts = 101 \<rparr>), Chunk 0 (Some ''Par''),
                   StreamError 0] init_state))) = ''Par''
   \<and> st_messages (run False [BookLoaded (\<lparr> book_title = ''T'', book_fileType = Epub, book_content = [''A'', ''B''],
         book_renderData = Markup [''<p>A</p>'', ''<p>B</p>''], book_totalPages = 2,
         book_fileName = ''t.epub'', book_toc = [] \<rparr>) None 0, FormSubmit ''Who?'' (\<lparr> now_user_id = 100, now_user_ts = 100, now_asst_id = 100, now_asst_ts = 100,
         now_err_id = 101, now_err_ts = 101 \<rparr>)] init_state)
     = [welcome_message (\<lparr> book_title = ''T'', book_fileType = Epub, book_content = [''A'', ''B''],
         book_renderData = Markup [''<p>A</p>'', ''<p>B</p>''], book_totalPages = 2,
         book_fileName = ''t.epub'', book_toc = [] \<rparr>) 0, user_message (\<lparr> now_user_id = 100, now_user_ts = 100, now_asst_id = 100, now_asst_ts = 100,
         now_err_id = 101, now_err_ts = 101 \<rparr>) ''Who?'', placeholder_message (\<lparr> now_user_id = 100, now_user_ts = 100, now_asst_id = 100, now_asst_ts = 100,
         now_err_id = 101, now_err_ts = 101 \<rparr>), error_message (\<lparr> now_user_id = 100, now_user_ts = 100, now_asst_id = 100, now_asst_ts = 100,
         now_err_id = 101, now_err_ts = 101 \<rparr>)]
   \<and> msg_content (placeholder_message (\<lparr> now_user_id = 100, now_user_ts = 100, now_asst_id = 100, now_asst_ts = 100,
         now_err_id = 101, now_err_ts = 101 \<rparr>)) = []
   \<and> isStreaming (placeholder_message (\<lparr> now_user_id = 100, now_user_ts = 100, now_asst_id = 100, now_asst_ts = 100,
         now_err_id = 101, now_err_ts = 101 \<rparr>)) = Some True
   \<and> st_isAiLoading
        (run True [BookLoaded (\<lparr> book_title = ''T'', book_fileType = Epub, book_content = [''A'', ''B''],
         book_renderData = Markup [''<p>A</p>'', ''<p>B</p>''], book_totalPages = 2,
         book_fileName = ''t.epub'', book_toc = [] \<rparr>) None 0, FormSubmit ''Who?'' (\<lparr> now_user_id = 100, now_user_ts = 100, now_asst_id = 100, now_asst_ts = 100,
         now_err_id = 101, now_err_ts = 101 \<rparr>), StreamError 0] init_state) = False"
  by (simp add: session_eval fallback_text_def welcome_message_def)

section \<open>One request at a time\<close>

lemma session_inv_init: "session_inv init_state"
  by (simp add: session_inv_def init_state_def)

lemma session_inv_send:
  assumes "session_inv s" and "\<not> st_isAiLoading s"
  shows "session_inv (handleSendMessage k clk v s)"
proof (cases "st_book s")
  case None
  then show ?thesis using assms by (simp add: handleSendMessage_def)
next
  case (Some b)
  have "st_inflight s = []"
    using assms by (auto simp add: session_inv_def)
  then show ?thesis
    using Some by (cases k) (simp_all add: handleSendMessage_def build_request_def Let_def session_inv_def)
qed

lemma session_inv_chunk: "session_inv s \<Longrightarrow> session_inv (stream_chunk i c s)"
  by (auto simp add: session_inv_def stream_chunk_def onChunk_def Let_def)

lemma session_inv_end: "session_inv s \<Longrightarrow> session_inv (stream_end failed i s)"
  by (auto simp add: session_inv_def stream_end_def after_await_def Let_def remove_at_def)

lemma session_inv_step: "session_inv s \<Longrightarrow> session_inv (step k e s)"
proof (cases e)
  case (BookLoaded b p n)
  assume "session_inv s"
  then show ?thesis using BookLoaded by (simp add: session_inv_def handleBookLoaded_def)
next
  case BackToHome
  assume "session_inv s"
  then show ?thesis using BackToHome by (simp add: session_inv_def handleBackToHome_def)
next
  case (PageChange p)
  assume "session_inv s"
  then show ?thesis using PageChange by (simp add: session_inv_def)
next
  case (FormSubmit v clk)
  assume "session_inv s"
  then show ?thesis using FormSubmit by (simp add: handleSubmit_def session_inv_send)
next
  case (SuggestionClick v clk)
  assume "session_inv s"
  then show ?thesis using SuggestionClick by (auto simp add: session_inv_def)
next
  case (Chunk i c)
  assume "session_inv s"
  then show ?thesis using Chunk by (simp add: session_inv_chunk)
next
  case (StreamDone i)
  assume "session_inv s"
  then show ?thesis using StreamDone by (simp add: session_inv_end)
next
  case (StreamError i)
  assume "session_inv s"
  then show ?thesis using StreamError by (simp add: session_inv_end)
qed

lemma session_inv_run: "session_inv s \<Longrightarrow> session_inv (run k evs s)"
  by (induction evs arbitrary: s) (simp_all add: run_Nil run_Cons session_inv_step)

text \<open>
  C8: in every state reachable from the initial one by any sequence of events, at most one
  call of the service is pending; while one is pending, a form submit and a click on a
  suggestion leave the state as it is: no request is created and no turn is appended.
\<close>

theorem at_most_one_in_flight:
  "length (st_inflight (run k evs init_state)) \<le> 1
   \<and> (st_inflight (run k evs init_state) \<noteq> [] \<longrightarrow>
        step k (FormSubmit v clk) (run k evs init_state) = run k evs init_state
      \<and> step k (SuggestionClick v clk) (run k evs init_state) = run k evs init_state)"
proof -
  have "session_inv (run k evs init_state)"
    by (rule session_inv_run [OF session_inv_init])
  then show ?thesis
    by (auto simp add: session_inv_def handleSubmit_def)
qed


theorem at_most_one_in_flight_witness:
  "st_inflight (run True [BookLoaded (\<lparr> book_title = ''T'', book_fileType = Epub, book_content = [''A'', ''B''],
         book_renderData = Markup [''<p>A</p>'', ''<p>B</p>''], book_totalPages = 2,
         book_fileName = ''t.epub'', book_toc = [] \<rparr>) None 0, FormSubmit ''Hi'' (\<lparr> now_user_id = 100, now_user_ts = 100, now_asst_id = 100, now_asst_ts = 100,
         now_err_id = 101, now_err_ts = 101 \<rparr>)] init_state) \<noteq> []
   \<and> length (st_inflight (run True [BookLoaded (\<lparr> book_title = ''T'', book_fileType = Epub, book_content = [''A'', ''B''],
         book_renderData = Markup [''<p>A</p>'', ''<p>B</p>''], book_totalPages = 2,
         book_fileName = ''t.epub'', book_toc = [] \<rparr>) None 0, FormSubmit ''Hi'' (\<lparr> now_user_id = 100, now_user_ts = 100, now_asst_id = 100, now_asst_ts = 100,
         now_err_id = 101, now_err_ts = 101 \<rparr>)] init_state)) \<le> 1
   \<and> step True (FormSubmit ''again'' (\<lparr> now_user_id = 100, now_user_ts = 100, now_asst_id = 100, now_asst_ts = 100,
         now_err_id = 101, now_err_ts = 101 \<rparr>))
        (run True [BookLoaded (\<lparr> book_title = ''T'', book_fileType = Epub, book_content = [''A'', ''B''],
         book_renderData = Markup [''<p>A</p>'', ''<p>B</p>''], book_totalPages = 2,
         book_fileName = ''t.epub'', book_toc = [] \<rparr>) None 0, FormSubmit ''Hi'' (\<lparr> now_user_id = 100, now_user_ts = 100, now_asst_id = 100, now_asst_ts = 100,
         now_err_id = 101, now_err_ts = 101 \<rparr>)] init_state)
      = run True [BookLoaded (\<lparr> book_title = ''T'', book_fileType = Epub, book_content = [''A'', ''B''],
         book_renderData = Markup [''<p>A</p>'', ''<p>B</p>''], book_totalPages = 2,
         book_fileName = ''t.epub'', book_toc = [] \<rparr>) None 0, FormSubmit ''Hi'' (\<lparr> now_user_id = 100, now_user_ts = 100, now_asst_id = 100, now_asst_ts = 100,
         now_err_id = 101, now_err_ts = 101 \<rparr>)] init_state
   \<and> step True (SuggestionClick ''again'' (\<lparr> now_user_id = 100, now_user_ts = 100, now_asst_id = 100, now_asst_ts = 100,
         now_err_id = 101, now_err_ts = 101 \<rparr>))
        (run True [BookLoaded (\<lparr> book_title = ''T'', book_fileType = Epub, book_content = [''A'', ''B''],
         book_renderData = Markup [''<p>A</p>'', ''<p>B</p>''], book_totalPages = 2,
         book_fileName = ''t.epub'', book_toc = [] \<rparr>) None 0, FormSubmit ''Hi'' (\<lparr> now_user_id = 100, now_user_ts = 100, now_asst_id = 100, now_asst_ts = 100,
         now_err_id = 101, now_err_ts = 101 \<rparr>)] init_state)
      = run True [BookLoaded (\<lparr> book_title = ''T'', book_fileType = Epub, book_content = [''A'', ''B''],
         book_renderData = Markup [''<p>A</p>'', ''<p>B</p>''], book_totalPages = 2,
         book_fileName = ''t.epub'', book_toc = [] \<rparr>) None 0, FormSubmit ''Hi'' (\<lparr> now_user_id = 100, now_user_ts = 100, now_asst_id = 100, now_asst_ts = 100,
         now_err_id = 101, now_err_ts = 101 \<rparr>)] init_state"
proof -
  have ne: "st_inflight (run True [BookLoaded (\<lparr> book_title = ''T'', book_fileType = Epub, book_content = [''A'', ''B''],
         book_renderData = Markup [''<p>A</p>'', ''<p>B</p>''], book_totalPages = 2,
         book_fileName = ''t.epub'', book_toc = [] \<rparr>) None 0, FormSubmit ''Hi'' (\<lparr> now_user_id = 100, now_user_ts = 100, now_asst_id = 100, now_asst_ts = 100,
         now_err_id = 101, now_err_ts = 101 \<rparr>)] init_state) \<noteq> []"
    by (simp add: run_def handleBookLoaded_def init_state_def handleSubmit_def
        handleSendMessage_def build_request_def trim_def is_space_def Let_def)
  show ?thesis
    using ne at_most_one_in_flight [of True "[BookLoaded (\<lparr> book_title = ''T'', book_fileType = Epub, book_content = [''A'', ''B''],
         book_renderData = Markup [''<p>A</p>'', ''<p>B</p>''], book_totalPages = 2,
         book_fileName = ''t.epub'', book_toc = [] \<rparr>) None 0, FormSubmit ''Hi'' (\<lparr> now_user_id = 100, now_user_ts = 100, now_asst_id = 100, now_asst_ts = 100,
         now_err_id = 101, now_err_ts = 101 \<rparr>)]"
        "''again''" "(\<lparr> now_user_id = 100, now_user_ts = 100, now_asst_id = 100, now_asst_ts = 100,
         now_err_id = 101, now_err_ts = 101 \<rparr>)"]
    by blast
qed


section \<open>Outline of a PDF\<close>

lemma outline_levels:
  "(\<forall>e \<in> set (processOutline pdf items level). level \<le> toc_level e)"
  "(\<forall>e \<in> set (processItem pdf item level). level \<le> toc_level e)"
  by (induction pdf items level and pdf item level rule: processOutline_processItem.induct)
     (fastforce simp add: toc_push_def split: option.splits if_splits dest: Suc_leD)+


lemma processOutline_member:
  "item \<in> set items \<Longrightarrow> set (processItem pdf item level) \<subseteq> set (processOutline pdf items level)"
  by (induction items) auto


text \<open>
  C7, as stated, at an external link: a node without a usable destination array that
  carries a URL leaves the loop iteration through \<open>continue\<close>, so its children are not
  walked. The child below resolves to page 3 when walked on its own, yet the outline of
  the link node is empty.
\<close>

theorem outline_link_subtree_counterexample:
  "processOutline (\<lparr> pdf_pages = [[''One''], [''Two''], [''Three''], [''Four'']],
            pdf_outline = None,
            pdf_getDestination = (\<lambda>name. None),
            pdf_getPageIndex = (\<lambda>r :: nat. if r = 7 then Some 3 else None) \<rparr>)
     [OutlineItem ''Link'' NoDest (Some ''https://example.org'')
        [OutlineItem ''Child'' (ExplicitDest (Some 7)) None []]] 0 = []
   \<and> processOutline (\<lparr> pdf_pages = [[''One''], [''Two''], [''Three''], [''Four'']],
            pdf_outline = None,
            pdf_getDestination = (\<lambda>name. None),
            pdf_getPageIndex = (\<lambda>r :: nat. if r = 7 then Some 3 else None) \<rparr>) [OutlineItem ''Child'' (ExplicitDest (Some 7)) None []] 1
     = [\<lparr> toc_title = ''Child'', toc_page = 3, toc_level = 1 \<rparr>]"
  by (simp add: resolve_dest_def url_truthy_def toc_push_def)

text \<open>
  C7 (amended): a node whose destination yields a reference that \<open>getPageIndex\<close> cannot
  resolve, and a node with neither a usable destination array nor a URL, contribute no
  entry of their own; their children are walked one level deeper, where every entry has a
  level above the node's and a resolvable child appears with level \<open>level + 1\<close>. A node
  with no usable destination array and a URL (an external link) is skipped together with
  its whole subtree.
\<close>

theorem outline_walk:
  "(resolve_dest pdf dest = Some (Some ref)
      \<and> (pdf_getPageIndex pdf ref = None \<or> pdf_getPageIndex pdf ref = Some (- 1))
     \<longrightarrow> processItem pdf (OutlineItem title dest url items) level
         = processOutline pdf items (level + 1))
   \<and> ((\<forall>r. resolve_dest pdf dest \<noteq> Some (Some r)) \<and> \<not> url_truthy url
     \<longrightarrow> processItem pdf (OutlineItem title dest url items) level
         = processOutline pdf items (level + 1))
   \<and> ((\<forall>r. resolve_dest pdf dest \<noteq> Some (Some r)) \<and> url_truthy url
     \<longrightarrow> processItem pdf (OutlineItem title dest url items) level = [])
   \<and> (\<forall>e \<in> set (processOutline pdf items (level + 1)). level + 1 \<le> toc_level e)
   \<and> (OutlineItem ctitle cdest curl citems \<in> set items
      \<and> resolve_dest pdf cdest = Some (Some cref) \<and> pdf_getPageIndex pdf cref = Some p
      \<and> p \<noteq> - 1
     \<longrightarrow> \<lparr> toc_title = ctitle, toc_page = p, toc_level = level + 1 \<rparr>
           \<in> set (processOutline pdf items (level + 1)))"
proof -
  have a: "resolve_dest pdf dest = Some (Some ref)
      \<and> (pdf_getPageIndex pdf ref = None \<or> pdf_getPageIndex pdf ref = Some (- 1))
     \<longrightarrow> processItem pdf (OutlineItem title dest url items) level
         = processOutline pdf items (level + 1)"
    by (auto simp add: toc_push_def split: option.splits)
  have b: "(\<forall>r. resolve_dest pdf dest \<noteq> Some (Some r)) \<and> \<not> url_truthy url
     \<longrightarrow> processItem pdf (OutlineItem title dest url items) level
         = processOutline pdf items (level + 1)"
    by (auto simp add: toc_push_def split: option.splits)
  have c: "(\<forall>r. resolve_dest pdf dest \<noteq> Some (Some r)) \<and> url_truthy url
     \<longrightarrow> processItem pdf (OutlineItem title dest url items) level = []"
    by (auto split: option.splits)
  have d: "\<forall>e \<in> set (processOutline pdf items (level + 1)). level + 1 \<le> toc_level e"
    by (rule outline_levels(1))
  have e: "OutlineItem ctitle cdest curl citems \<in> set items
      \<and> resolve_dest pdf cdest = Some (Some cref) \<and> pdf_getPageIndex pdf cref = Some p
      \<and> p \<noteq> - 1
     \<longrightarrow> \<lparr> toc_title = ctitle, toc_page = p, toc_level = level + 1 \<rparr>
           \<in> set (processOutline pdf items (level + 1))"
  proof (intro impI, elim conjE)
    assume m: "OutlineItem ctitle cdest curl citems \<in> set items"
      and r: "resolve_dest pdf cdest = Some (Some cref)"
      and g: "pdf_getPageIndex pdf cref = Some p" and n: "p \<noteq> - 1"
    have "\<lparr> toc_title = ctitle, toc_page = p, toc_level = level + 1 \<rparr>
        \<in> set (processItem pdf (OutlineItem ctitle cdest curl citems) (level + 1))"
      using r g n by (simp add: toc_push_def)
    then show "\<lparr> toc_title = ctitle, toc_page = p, toc_level = level + 1 \<rparr>
        \<in> set (processOutline pdf items (level + 1))"
      using processOutline_member [OF m, of pdf "level + 1"] by blast
  qed
  show ?thesis using a b c d e by blast
qed

theorem outline_walk_witness:
  "processItem (\<lparr> pdf_pages = [[''One''], [''Two''], [''Three''], [''Four'']],
            pdf_outline = None,
            pdf_getDestination = (\<lambda>name. None),
            pdf_getPageIndex = (\<lambda>r :: nat. if r = 7 then Some 3 else None) \<rparr>)
     (OutlineItem ''Part'' (ExplicitDest (Some 9)) None
        [OutlineItem ''Child'' (ExplicitDest (Some 7)) None []]) 0
     = processOutline (\<lparr> pdf_pages = [[''One''], [''Two''], [''Three''], [''Four'']],
            pdf_outline = None,
            pdf_getDestination = (\<lambda>name. None),
            pdf_getPageIndex = (\<lambda>r :: nat. if r = 7 then Some 3 else None) \<rparr>) [OutlineItem ''Child'' (ExplicitDest (Some 7)) None []] 1
   \<and> \<lparr> toc_title = ''Child'', toc_page = 3, toc_level = 1 \<rparr>
       \<in> set (processOutline (\<lparr> pdf_pages = [[''One''], [''Two''], [''Three''], [''Four'']],
            pdf_outline = None,
            pdf_getDestination = (\<lambda>name. None),
            pdf_getPageIndex = (\<lambda>r :: nat. if r = 7 then Some 3 else None) \<rparr>) [OutlineItem ''Child'' (ExplicitDest (Some 7)) None []] 1)
   \<and> processItem (\<lparr> pdf_pages = [[''One''], [''Two''], [''Three''], [''Four'']],
            pdf_outline = None,
            pdf_getDestination = (\<lambda>name. None),
            pdf_getPageIndex = (\<lambda>r :: nat. if r = 7 then Some 3 else None) \<rparr>)
       (OutlineItem ''Missing'' (NamedDest ''nowhere'') None
          [OutlineItem ''Child'' (ExplicitDest (Some 7)) None []]) 0
     = processOutline (\<lparr> pdf_pages = [[''One''], [''Two''], [''Three''], [''Four'']],
            pdf_outline = None,
            pdf_getDestination = (\<lambda>name. None),
            pdf_getPageIndex = (\<lambda>r :: nat. if r = 7 then Some 3 else None) \<rparr>) [OutlineItem ''Child'' (ExplicitDest (Some 7)) None []] 1
   \<and> processItem (\<lparr> pdf_pages = [[''One''], [''Two''], [''Three''], [''Four'']],
            pdf_outline = None,
            pdf_getDestination = (\<lambda>name. None),
            pdf_getPageIndex = (\<lambda>r :: nat. if r = 7 then Some 3 else None) \<rparr>)
       (OutlineItem ''Link'' NoDest (Some ''https://example.org'')
          [OutlineItem ''Child'' (ExplicitDest (Some 7)) None []]) 0 = []"
  using
    outline_walk [of "(\<lparr> pdf_pages = [[''One''], [''Two''], [''Three''], [''Four'']],
            pdf_outline = None,
            pdf_getDestination = (\<lambda>name. None),
            pdf_getPageIndex = (\<lambda>r :: nat. if r = 7 then Some 3 else None) \<rparr>)" "ExplicitDest (Some 9)" 9 "''Part''" None
      "[OutlineItem ''Child'' (ExplicitDest (Some 7)) None []]" 0
      "''Child''" "ExplicitDest (Some 7)" None "[]" 7 3]
    outline_walk [of "(\<lparr> pdf_pages = [[''One''], [''Two''], [''Three''], [''Four'']],
            pdf_outline = None,
            pdf_getDestination = (\<lambda>name. None),
            pdf_getPageIndex = (\<lambda>r :: nat. if r = 7 then Some 3 else None) \<rparr>)" "NamedDest ''nowhere''" 0 "''Missing''" None
      "[OutlineItem ''Child'' (ExplicitDest (Some 7)) None []]" 0]
    outline_walk [of "(\<lparr> pdf_pages = [[''One''], [''Two''], [''Three''], [''Four'']],
            pdf_outline = None,
            pdf_getDestination = (\<lambda>name. None),
            pdf_getPageIndex = (\<lambda>r :: nat. if r = 7 then Some 3 else None) \<rparr>)" NoDest 0 "''Link''" "Some ''https://example.org''"
      "[OutlineItem ''Child'' (ExplicitDest (Some 7)) None []]" 0]
  by (simp add: resolve_dest_def url_truthy_def)


section \<open>Parsed books\<close>









text \<open>
  C6, evaluated on both paths: a PDF with no pages yields a book with an empty page list
  and \<open>totalPages = 0\<close>; an EPUB whose members contribute no page yields the single
  sentinel page and \<open>totalPages = 1\<close>.
\<close>

theorem zero_page_documents:
  "parseFile (\<lparr> pdfjsLib = True, jsZip = True \<rparr>)
     \<lparr> up_name = ''empty.pdf'', up_type = ''application/pdf'', up_bytes = ''%PDF-1.7'',
       up_pdf = Some (\<lparr> pdf_pages = [], pdf_outline = None, pdf_getDestination = (\<lambda>name. None),
                 pdf_getPageIndex = (\<lambda>r :: nat. None) \<rparr>), up_zip = None \<rparr>
     = Inr \<lparr> book_title = ''empty'', book_fileType = Pdf, book_content = [],
             book_renderData = Buffer ''%PDF-1.7'', book_totalPages = 0,
             book_fileName = ''empty.pdf'', book_toc = [] \<rparr>
   \<and> parseFile (\<lparr> pdfjsLib = True, jsZip = True \<rparr>)
     \<lparr> up_name = ''blank.epub'', up_type = ''application/epub+zip'', up_bytes = ''PK'',
       up_pdf = (None :: nat pdf_document option),
       up_zip = Some [(''mimetype'', None),
                      (''a.xhtml'', Some \<lparr> doc_bodyText = ''  '', doc_images = 0,
                                          doc_bodyHtml = [], doc_title = None \<rparr>)] \<rparr>
     = Inr \<lparr> book_title = ''blank'', book_fileType = Epub,
             book_content = [''No text content found.''],
             book_renderData = Markup [''<p>No content found.</p>''], book_totalPages = 1,
             book_fileName = ''blank.epub'', book_toc = [] \<rparr>"
  by (simp add: parseFile_def parsePdf_def parseEpub_def Let_def is_markup_name_def ends_with_def
      epub_member_def trim_def is_space_def)

end
